theory Spec2Isabelle
  imports Main
begin

section \<open>Paths and URIs of the host\<close>

text \<open>
  \<^verbatim>\<open>databases.ts\<close> reads three things of a \<^verbatim>\<open>vscode.Uri\<close>: its \<^verbatim>\<open>scheme\<close>, its
  \<^verbatim>\<open>fsPath\<close>, and the constructor \<^verbatim>\<open>Uri.file\<close>. The model keeps exactly these:
  a URI is its scheme and its file-system path, and \<^verbatim>\<open>Uri.file(p)\<close> is the
  \<^verbatim>\<open>file\<close> URI whose \<^verbatim>\<open>fsPath\<close> is \<^verbatim>\<open>p\<close>.
\<close>

record Uri =
  scheme :: string
  fsPath :: string

definition Uri_file :: "string \<Rightarrow> Uri" where
  "Uri_file p = \<lparr>scheme = ''file'', fsPath = p\<rparr>"

text \<open>
  Node's \<^verbatim>\<open>path\<close> module, in its POSIX variant. \<^verbatim>\<open>path.join\<close> glues its non-empty
  arguments with \<^verbatim>\<open>/\<close> and normalises the result: empty segments and \<^verbatim>\<open>.\<close> are
  dropped, \<^verbatim>\<open>..\<close> removes the segment before it (and is kept in front of a relative
  path only), a trailing slash is kept. \<^verbatim>\<open>path.basename\<close> drops trailing slashes
  and returns what follows the last remaining slash.
\<close>

fun splitSlash :: "string \<Rightarrow> string list" where
  "splitSlash [] = [[]]"
| "splitSlash (c # cs) =
     (if c = CHR ''/'' then [] # splitSlash cs
      else (case splitSlash cs of
              [] \<Rightarrow> [[c]]
            | seg # segs \<Rightarrow> (c # seg) # segs))"

fun joinSlash :: "string list \<Rightarrow> string" where
  "joinSlash [] = []"
| "joinSlash [seg] = seg"
| "joinSlash (seg # segs) = seg @ ''/'' @ joinSlash segs"

text \<open>
  \<^verbatim>\<open>normalizeString\<close>, on segments: \<open>res\<close> is the stack of segments kept so far,
  last one first.
\<close>

fun normalizeSegments :: "bool \<Rightarrow> string list \<Rightarrow> string list \<Rightarrow> string list" where
  "normalizeSegments allowAboveRoot res [] = rev res"
| "normalizeSegments allowAboveRoot res (seg # segs) =
     (if seg = [] \<or> seg = ''.'' then normalizeSegments allowAboveRoot res segs
      else if seg = ''..'' then
        (case res of
           [] \<Rightarrow> normalizeSegments allowAboveRoot (if allowAboveRoot then [''..''] else []) segs
         | r # rs \<Rightarrow>
             if r = ''..''
             then normalizeSegments allowAboveRoot (if allowAboveRoot then ''..'' # res else res) segs
             else normalizeSegments allowAboveRoot rs segs)
      else normalizeSegments allowAboveRoot (seg # res) segs)"

definition normalizeString :: "string \<Rightarrow> bool \<Rightarrow> string" where
  "normalizeString path allowAboveRoot =
     joinSlash (normalizeSegments allowAboveRoot [] (splitSlash path))"

definition normalize :: "string \<Rightarrow> string" where
  "normalize path =
     (if path = [] then ''.''
      else
        let isAbsolute = (hd path = CHR ''/'');
            trailingSeparator = (last path = CHR ''/'');
            p = normalizeString path (\<not> isAbsolute)
        in if p = [] then
             (if isAbsolute then ''/'' else if trailingSeparator then ''./'' else ''.'')
           else
             (let p' = (if trailingSeparator then p @ ''/'' else p)
              in if isAbsolute then CHR ''/'' # p' else p'))"

definition path_join :: "string list \<Rightarrow> string" where
  "path_join args =
     (let joined = joinSlash (filter (\<lambda>arg. arg \<noteq> []) args)
      in if joined = [] then ''.'' else normalize joined)"

definition basename :: "string \<Rightarrow> string" where
  "basename path =
     rev (takeWhile (\<lambda>c. c \<noteq> CHR ''/'') (dropWhile (\<lambda>c. c = CHR ''/'') (rev path)))"

definition startsWith :: "string \<Rightarrow> string \<Rightarrow> bool" where
  "startsWith s p = (take (length p) s = p)"

section \<open>Errors\<close>

text \<open>
  Three things can be thrown while the code of \<^verbatim>\<open>databases.ts\<close> runs:
  a \<^verbatim>\<open>NoDatabaseError\<close> (its own class, with a message), the plain \<^verbatim>\<open>Error\<close> of
  \<^verbatim>\<open>setCurrentDatabase\<close> for a URI that is not a file URI (with a message), and
  whatever \<^verbatim>\<open>fs.readdirSync\<close> throws for a path it cannot list.
\<close>

datatype error = NoDatabaseError string | Error string | FsError

section \<open>The state\<close>

text \<open>
  A \<^verbatim>\<open>DatabaseItem\<close> is an object: the list of the tree data provider and its
  \<^verbatim>\<open>current\<close> field hold references to it, and the code compares items by reference.
  So the model has a store of objects, \<open>heap\<close>; a reference is an index into it, and
  \<^verbatim>\<open>new\<close> appends to it. \<open>srcRoot\<close> is assigned by the callback of \<^verbatim>\<open>fs.exists\<close>,
  after the constructor has returned; it is \<open>None\<close> in a freshly built item.
\<close>

type_synonym ref = nat

record DatabaseItem =
  snapshotUri :: Uri
  dbUri :: Uri
  srcRoot :: "Uri option"
  name :: string

text \<open>
  The file system is read only: \<open>fs p\<close> is what \<^verbatim>\<open>fs.readdirSync(p)\<close> returns, the
  names of the entries of directory \<open>p\<close> in listing order, or \<open>None\<close> where it throws.
\<close>

type_synonym filesystem = "string \<rightharpoonup> string list"

text \<open>
  The state a \<^verbatim>\<open>DatabaseManager\<close> and its \<^verbatim>\<open>DatabaseTreeDataProvider\<close> work on:
  the provider's fields \<open>databases\<close> and \<open>current\<close>, the number of times its
  event emitter has fired, the messages shown to the user through
  \<^verbatim>\<open>vscode.window\<close>, and the \<^verbatim>\<open>workspaceState\<close> of the extension context.
\<close>

record state =
  heap :: "DatabaseItem list"
  databases :: "ref list"
  current :: "ref option"
  fired :: nat
  warningMessages :: "string list"
  errorMessages :: "string list"
  workspaceState :: "string \<rightharpoonup> string"

definition CURRENT_DB :: string where
  "CURRENT_DB = ''currentDatabase''"

definition showWarningMessage :: "string \<Rightarrow> state \<Rightarrow> state" where
  "showWarningMessage m s = s\<lparr>warningMessages := warningMessages s @ [m]\<rparr>"

definition showErrorMessage :: "string \<Rightarrow> state \<Rightarrow> state" where
  "showErrorMessage m s = s\<lparr>errorMessages := errorMessages s @ [m]\<rparr>"

text \<open>\<^verbatim>\<open>workspaceState.update(key, value)\<close>; the value \<^verbatim>\<open>undefined\<close> removes the key.\<close>

definition workspaceState_update :: "string \<Rightarrow> string option \<Rightarrow> state \<Rightarrow> state" where
  "workspaceState_update key v s = s\<lparr>workspaceState := (workspaceState s)(key := v)\<rparr>"

section \<open>DatabaseItem\<close>

text \<open>
  \<^verbatim>\<open>DatabaseItem.findDb\<close>: the entries of the directory whose name starts with
  \<^verbatim>\<open>db-\<close>, pushed one by one in listing order.
\<close>

definition findDb :: "filesystem \<Rightarrow> Uri \<Rightarrow> error + string list" where
  "findDb fs uri =
     (case fs (fsPath uri) of
        None \<Rightarrow> Inl FsError
      | Some files \<Rightarrow>
          Inr (foldl (\<lambda>matches file. if startsWith file ''db-'' then matches @ [file] else matches)
                 [] files))"

text \<open>
  The constructor of \<^verbatim>\<open>DatabaseItem\<close>. It returns the reference of the new object,
  or the error thrown; the warning it may show is in the state returned. An object
  whose constructor throws is never reachable, so it is not put into the store.
\<close>

definition new_DatabaseItem :: "filesystem \<Rightarrow> Uri \<Rightarrow> state \<Rightarrow> (error + ref) \<times> state" where
  "new_DatabaseItem fs uri s =
     (case findDb fs uri of
        Inl e \<Rightarrow> (Inl e, s)
      | Inr dbRelativePaths \<Rightarrow>
          if length dbRelativePaths = 0 then
            (Inl (NoDatabaseError
               (fsPath uri @ '' doesn't appear to be a valid snapshot directory.'')), s)
          else
            let dbAbsolutePath = path_join [fsPath uri, dbRelativePaths ! 0];
                s1 = (if length dbRelativePaths > 1
                      then showWarningMessage
                             (''Found multiple database directories in snapshot, using ''
                                @ dbAbsolutePath) s
                      else s);
                this = \<lparr>snapshotUri = uri,
                        dbUri = Uri_file dbAbsolutePath,
                        srcRoot = None,
                        name = basename (fsPath uri)\<rparr>
            in (Inr (length (heap s1)), s1\<lparr>heap := heap s1 @ [this]\<rparr>))"

section \<open>DatabaseTreeDataProvider\<close>

definition getCurrent :: "state \<Rightarrow> ref option" where
  "getCurrent s = current s"

definition setCurrentItem :: "ref \<Rightarrow> state \<Rightarrow> state" where
  "setCurrentItem item s = s\<lparr>current := Some item, fired := fired s + 1\<rparr>"

text \<open>\<^verbatim>\<open>Array.prototype.findIndex\<close>; \<open>None\<close> stands for the result \<^verbatim>\<open>-1\<close>.\<close>

fun findIndex :: "('a \<Rightarrow> bool) \<Rightarrow> 'a list \<Rightarrow> nat option" where
  "findIndex P [] = None"
| "findIndex P (x # xs) = (if P x then Some 0 else map_option Suc (findIndex P xs))"

text \<open>
  \<^verbatim>\<open>setCurrentUri\<close>. A \<^verbatim>\<open>NoDatabaseError\<close> of the constructor is caught: its message
  is shown and the method returns. Any other error is thrown on. The search compares
  the \<^verbatim>\<open>dbUri.fsPath\<close> of each known item with \<^verbatim>\<open>dir.fsPath\<close>.
\<close>

definition setCurrentUri :: "filesystem \<Rightarrow> Uri \<Rightarrow> state \<Rightarrow> (error + unit) \<times> state" where
  "setCurrentUri fs dir s =
     (case new_DatabaseItem fs dir s of
        (Inl (NoDatabaseError m), s1) \<Rightarrow> (Inr (), showErrorMessage m s1)
      | (Inl e, s1) \<Rightarrow> (Inl e, s1)
      | (Inr item, s1) \<Rightarrow>
          (case findIndex (\<lambda>it. fsPath (dbUri (heap s1 ! it)) = fsPath dir) (databases s1) of
             None \<Rightarrow> (Inr (), setCurrentItem item (s1\<lparr>databases := databases s1 @ [item]\<rparr>))
           | Some ix \<Rightarrow> (Inr (), setCurrentItem (databases s1 ! ix) s1)))"

section \<open>DatabaseManager\<close>

text \<open>
  The constructor of \<^verbatim>\<open>DatabaseManager\<close> starts a session from the persisted
  \<^verbatim>\<open>workspaceState\<close>: no object, no message and no event yet. It returns the state of
  the new manager, or the error thrown.
\<close>

definition new_DatabaseManager :: "filesystem \<Rightarrow> (string \<rightharpoonup> string) \<Rightarrow> error + state" where
  "new_DatabaseManager fs ws =
     (let s0 = \<lparr>heap = [], databases = [], current = None, fired = 0,
                warningMessages = [], errorMessages = [], workspaceState = ws\<rparr>
      in case ws CURRENT_DB of
           None \<Rightarrow> Inr s0
         | Some db \<Rightarrow>
             (case new_DatabaseItem fs (Uri_file db) s0 of
                (Inl (NoDatabaseError m), s1) \<Rightarrow>
                  Inr (workspaceState_update CURRENT_DB None (showErrorMessage m s1))
              | (Inl e, s1) \<Rightarrow> Inl e
              | (Inr dbi, s1) \<Rightarrow> Inr (s1\<lparr>databases := [dbi], current := Some dbi\<rparr>)))"

definition setCurrentDatabase :: "filesystem \<Rightarrow> Uri \<Rightarrow> state \<Rightarrow> (error + unit) \<times> state" where
  "setCurrentDatabase fs db s =
     (if scheme db \<noteq> ''file'' then
        (Inl (Error (''Database uri scheme '' @ scheme db
                       @ '' not supported, only file uris are supported.'')), s)
      else
        (case setCurrentUri fs db s of
           (Inl e, s1) \<Rightarrow> (Inl e, s1)
         | (Inr u, s1) \<Rightarrow> (Inr (), workspaceState_update CURRENT_DB (Some (fsPath db)) s1)))"

text \<open>
  \<^verbatim>\<open>chooseAndSetDatabase\<close>. The answer of the dialog of \<^verbatim>\<open>chooseDatabaseDir\<close> is the
  argument \<open>chosen\<close>: \<open>None\<close> when the user cancels. A rejected promise is an error.
\<close>

definition chooseAndSetDatabase ::
  "filesystem \<Rightarrow> Uri option \<Rightarrow> state \<Rightarrow> (error + Uri option) \<times> state" where
  "chooseAndSetDatabase fs chosen s =
     (case chosen of
        None \<Rightarrow> (Inr chosen, s)
      | Some db \<Rightarrow>
          (case setCurrentDatabase fs db s of
             (Inl e, s1) \<Rightarrow> (Inl e, s1)
           | (Inr u, s1) \<Rightarrow> (Inr chosen, s1)))"

definition getDatabaseDir ::
  "filesystem \<Rightarrow> Uri option \<Rightarrow> state \<Rightarrow> (error + Uri option) \<times> state" where
  "getDatabaseDir fs chosen s =
     (case getCurrent s of
        None \<Rightarrow> chooseAndSetDatabase fs chosen s
      | Some db \<Rightarrow> (Inr (Some (dbUri (heap s ! db))), s))"

text \<open>
  Whether the constructor of \<^verbatim>\<open>DatabaseItem\<close> accepts a URI: the listing can be
  read and has an entry starting with \<^verbatim>\<open>db-\<close>.
\<close>

definition validates :: "filesystem \<Rightarrow> Uri \<Rightarrow> bool" where
  "validates fs uri = (case findDb fs uri of Inr (m # ms) \<Rightarrow> True | _ \<Rightarrow> False)"

section \<open>Sequences of calls\<close>

text \<open>
  The calls a client can make on a manager, each with what the world answers: the file
  system it reads and, for the two methods that open the folder dialog, the folder
  the user would choose.
\<close>

datatype call =
    SetCurrentUri filesystem Uri
  | SetCurrentItem ref
  | SetCurrentDatabase filesystem Uri
  | ChooseAndSetDatabase filesystem "Uri option"
  | GetDatabaseDir filesystem "Uri option"

fun perform :: "call \<Rightarrow> state \<Rightarrow> state" where
  "perform (SetCurrentUri fs dir) s = snd (setCurrentUri fs dir s)"
| "perform (SetCurrentItem item) s = setCurrentItem item s"
| "perform (SetCurrentDatabase fs db) s = snd (setCurrentDatabase fs db s)"
| "perform (ChooseAndSetDatabase fs chosen) s = snd (chooseAndSetDatabase fs chosen s)"
| "perform (GetDatabaseDir fs chosen) s = snd (getDatabaseDir fs chosen s)"

text \<open>
  \<^verbatim>\<open>setCurrentItem\<close> is to be called with an item of the list; the code does not
  check it.
\<close>

fun admissible :: "call \<Rightarrow> state \<Rightarrow> bool" where
  "admissible (SetCurrentItem item) s = (item \<in> set (databases s))"
| "admissible c s = True"

fun run :: "call list \<Rightarrow> state \<Rightarrow> state" where
  "run [] s = s"
| "run (c # cs) s = run cs (perform c s)"

fun admissible_all :: "call list \<Rightarrow> state \<Rightarrow> bool" where
  "admissible_all [] s = True"
| "admissible_all (c # cs) s = (admissible c s \<and> admissible_all cs (perform c s))"

text \<open>
  The invariant written at the field \<^verbatim>\<open>current\<close>: when it is set, it is one of the
  references in \<open>databases\<close>; and every reference in \<open>databases\<close> is an object
  of the store.
\<close>

definition current_in_items :: "state \<Rightarrow> bool" where
  "current_in_items s =
     ((case current s of None \<Rightarrow> True | Some item \<Rightarrow> item \<in> set (databases s))
      \<and> list_all (\<lambda>item. item < length (heap s)) (databases s))"

section \<open>A file system and sessions to evaluate on\<close>

text \<open>
  Four directories: \<^verbatim>\<open>/snaps/myproj\<close> with one database (listed under its name with
  and without a trailing slash), \<^verbatim>\<open>/snaps/multi\<close> with two, and \<^verbatim>\<open>/snaps/empty\<close>
  with none. \<open>fresh_session\<close> is a manager started with nothing persisted,
  \<open>restored_session\<close> one started with \<^verbatim>\<open>/snaps/myproj\<close> persisted.
\<close>

definition example_fs :: filesystem where
  "example_fs =
     [''/snaps/myproj'' \<mapsto> [''db-cpp'', ''src''],
      ''/snaps/myproj/'' \<mapsto> [''db-cpp'', ''src''],
      ''/snaps/multi'' \<mapsto> [''README'', ''db-java'', ''db-cpp'', ''src''],
      ''/snaps/empty'' \<mapsto> [''src'']]"

definition fresh_session :: state where
  "fresh_session =
     \<lparr>heap = [], databases = [], current = None, fired = 0,
      warningMessages = [], errorMessages = [], workspaceState = Map.empty\<rparr>"

definition example_ws :: "string \<rightharpoonup> string" where
  "example_ws = [CURRENT_DB \<mapsto> ''/snaps/myproj'']"

definition myproj_item :: DatabaseItem where
  "myproj_item =
     \<lparr>snapshotUri = Uri_file ''/snaps/myproj'',
      dbUri = Uri_file ''/snaps/myproj/db-cpp'',
      srcRoot = None,
      name = ''myproj''\<rparr>"

definition restored_session :: state where
  "restored_session =
     \<lparr>heap = [myproj_item], databases = [0], current = Some 0, fired = 0,
      warningMessages = [], errorMessages = [], workspaceState = example_ws\<rparr>"

definition example_calls :: "call list" where
  "example_calls =
     [SetCurrentUri example_fs (Uri_file ''/snaps/multi''),
      SetCurrentItem 0,
      SetCurrentUri example_fs (Uri_file ''/snaps/empty'')]"

definition remote_uri :: Uri where
  "remote_uri = \<lparr>scheme = ''vscode-remote'', fsPath = ''/snaps/myproj''\<rparr>"

section \<open>The constructor of DatabaseItem\<close>

lemma foldl_push_filter:
  "foldl (\<lambda>matches file. if P file then matches @ [file] else matches) acc files
     = acc @ filter P files"
  by (induction files arbitrary: acc) simp_all

lemma findDb_filter:
  "findDb fs uri =
     (case fs (fsPath uri) of
        None \<Rightarrow> Inl FsError
      | Some files \<Rightarrow> Inr (filter (\<lambda>file. startsWith file ''db-'') files))"
  by (simp add: findDb_def foldl_push_filter split: option.split)

lemma new_DatabaseItem_unreadable:
  "fs (fsPath uri) = None \<Longrightarrow> new_DatabaseItem fs uri s = (Inl FsError, s)"
  by (simp add: new_DatabaseItem_def findDb_filter)

lemma new_DatabaseItem_no_match:
  assumes "fs (fsPath uri) = Some files"
    and "filter (\<lambda>file. startsWith file ''db-'') files = []"
  shows "new_DatabaseItem fs uri s =
           (Inl (NoDatabaseError
              (fsPath uri @ '' doesn't appear to be a valid snapshot directory.'')), s)"
  using assms by (simp add: new_DatabaseItem_def findDb_filter)

lemma new_DatabaseItem_match:
  assumes "fs (fsPath uri) = Some files"
    and "filter (\<lambda>file. startsWith file ''db-'') files = m # ms"
  shows "new_DatabaseItem fs uri s =
           (Inr (length (heap s)),
            s\<lparr>warningMessages := warningMessages s @
                 (if ms = [] then []
                  else [''Found multiple database directories in snapshot, using ''
                          @ path_join [fsPath uri, m]]),
              heap := heap s @
                 [\<lparr>snapshotUri = uri,
                   dbUri = Uri_file (path_join [fsPath uri, m]),
                   srcRoot = None,
                   name = basename (fsPath uri)\<rparr>]\<rparr>)"
  using assms
  by (simp add: new_DatabaseItem_def findDb_filter showWarningMessage_def Let_def)

lemma new_DatabaseItem_cases:
  "(\<exists>m. new_DatabaseItem fs uri s = (Inl (NoDatabaseError m), s))
   \<or> new_DatabaseItem fs uri s = (Inl FsError, s)
   \<or> (\<exists>w this. new_DatabaseItem fs uri s =
         (Inr (length (heap s)), s\<lparr>warningMessages := w, heap := heap s @ [this]\<rparr>))"
proof (cases "fs (fsPath uri)")
  case None
  then show ?thesis by (simp add: new_DatabaseItem_unreadable)
next
  case (Some files)
  show ?thesis
  proof (cases "filter (\<lambda>file. startsWith file ''db-'') files")
    case Nil
    with Some show ?thesis by (simp add: new_DatabaseItem_no_match)
  next
    case (Cons m ms)
    from new_DatabaseItem_match [of fs uri files m ms s, OF Some Cons]
    show ?thesis by blast
  qed
qed

lemma validates_iff:
  "validates fs uri \<longleftrightarrow> (\<exists>item. fst (new_DatabaseItem fs uri s) = Inr item)"
proof (cases "fs (fsPath uri)")
  case None
  then show ?thesis
    by (simp add: validates_def findDb_filter new_DatabaseItem_unreadable)
next
  case (Some files)
  show ?thesis
  proof (cases "filter (\<lambda>file. startsWith file ''db-'') files")
    case Nil
    with Some show ?thesis
      by (simp add: validates_def findDb_filter new_DatabaseItem_no_match)
  next
    case (Cons m ms)
    with Some show ?thesis
      by (simp add: validates_def findDb_filter new_DatabaseItem_match)
  qed
qed

lemma validates_fsPath: "fsPath uri = fsPath uri' \<Longrightarrow> validates fs uri = validates fs uri'"
  by (simp add: validates_def findDb_def)

lemmas path_defs = path_join_def normalize_def normalizeString_def basename_def startsWith_def

lemmas model_defs =
  new_DatabaseManager_def new_DatabaseItem_def findDb_def setCurrentUri_def setCurrentItem_def
  setCurrentDatabase_def chooseAndSetDatabase_def getDatabaseDir_def getCurrent_def
  showWarningMessage_def showErrorMessage_def workspaceState_update_def Uri_file_def
  CURRENT_DB_def Let_def

lemma restored:
  "new_DatabaseManager example_fs example_ws = Inr restored_session"
  by (simp add: model_defs path_defs example_fs_def example_ws_def restored_session_def
        myproj_item_def)

text \<open>
  C5. A directory \<open>D\<close> that can be listed and has no entry starting with \<^verbatim>\<open>db-\<close>:
  the constructor throws \<^verbatim>\<open>NoDatabaseError\<close> with the message
  "\<open>D\<close> doesn't appear to be a valid snapshot directory.", and
  \<^verbatim>\<open>setCurrentUri\<close> returns with the list of items, the current item and the
  store as they were.
\<close>

theorem construct_no_database:
  assumes "fs (fsPath D) = Some files"
    and "filter (\<lambda>file. startsWith file ''db-'') files = []"
  shows "new_DatabaseItem fs D s =
           (Inl (NoDatabaseError
              (fsPath D @ '' doesn't appear to be a valid snapshot directory.'')), s)
         \<and> fst (setCurrentUri fs D s) = Inr ()
         \<and> databases (snd (setCurrentUri fs D s)) = databases s
         \<and> current (snd (setCurrentUri fs D s)) = current s
         \<and> heap (snd (setCurrentUri fs D s)) = heap s"
  using assms new_DatabaseItem_no_match [of fs D files s]
  by (simp add: setCurrentUri_def showErrorMessage_def)

theorem construct_no_database_witness:
  "example_fs (fsPath (Uri_file ''/snaps/empty'')) = Some [''src'']
   \<and> filter (\<lambda>file. startsWith file ''db-'') [''src''] = []
   \<and> new_DatabaseItem example_fs (Uri_file ''/snaps/empty'') fresh_session =
       (Inl (NoDatabaseError ''/snaps/empty doesn't appear to be a valid snapshot directory.''),
        fresh_session)
   \<and> databases (snd (setCurrentUri example_fs (Uri_file ''/snaps/empty'') fresh_session)) = []
   \<and> current (snd (setCurrentUri example_fs (Uri_file ''/snaps/empty'') fresh_session)) = None"
proof -
  have listing: "example_fs (fsPath (Uri_file ''/snaps/empty'')) = Some [''src'']"
    by (simp add: example_fs_def Uri_file_def)
  have none: "filter (\<lambda>file. startsWith file ''db-'') [''src''] = []"
    by (simp add: startsWith_def)
  show ?thesis
    using construct_no_database
            [of example_fs "Uri_file ''/snaps/empty''" "[''src'']" fresh_session,
             OF listing none]
          listing none
    by (simp add: Uri_file_def fresh_session_def)
qed

text \<open>
  C6. A directory \<open>D\<close> with at least one entry starting with \<^verbatim>\<open>db-\<close>: the
  constructor returns a new item whose \<open>dbUri\<close> is \<open>D\<close> joined with the first such
  entry in listing order and whose \<open>name\<close> is the base name of \<open>D\<close>; it shows
  one warning when there are further matches, and none when there is one match.
\<close>

theorem construct_first_match:
  assumes "fs (fsPath D) = Some files"
    and "filter (\<lambda>file. startsWith file ''db-'') files = m # ms"
  shows "new_DatabaseItem fs D s =
           (Inr (length (heap s)),
            s\<lparr>warningMessages := warningMessages s @
                 (if ms = [] then []
                  else [''Found multiple database directories in snapshot, using ''
                          @ path_join [fsPath D, m]]),
              heap := heap s @
                 [\<lparr>snapshotUri = D,
                   dbUri = Uri_file (path_join [fsPath D, m]),
                   srcRoot = None,
                   name = basename (fsPath D)\<rparr>]\<rparr>)"
  using assms by (rule new_DatabaseItem_match [of fs D files m ms s])

theorem construct_first_match_witness:
  "example_fs (fsPath (Uri_file ''/snaps/multi''))
     = Some [''README'', ''db-java'', ''db-cpp'', ''src'']
   \<and> filter (\<lambda>file. startsWith file ''db-'') [''README'', ''db-java'', ''db-cpp'', ''src'']
     = ''db-java'' # [''db-cpp'']
   \<and> new_DatabaseItem example_fs (Uri_file ''/snaps/multi'') fresh_session =
       (Inr 0,
        fresh_session
          \<lparr>warningMessages :=
             [''Found multiple database directories in snapshot, using /snaps/multi/db-java''],
           heap :=
             [\<lparr>snapshotUri = Uri_file ''/snaps/multi'',
               dbUri = Uri_file ''/snaps/multi/db-java'',
               srcRoot = None,
               name = ''multi''\<rparr>]\<rparr>)
   \<and> example_fs (fsPath (Uri_file ''/snaps/myproj'')) = Some [''db-cpp'', ''src'']
   \<and> filter (\<lambda>file. startsWith file ''db-'') [''db-cpp'', ''src''] = ''db-cpp'' # []
   \<and> new_DatabaseItem example_fs (Uri_file ''/snaps/myproj'') fresh_session =
       (Inr 0, fresh_session\<lparr>heap := [myproj_item]\<rparr>)"
proof -
  have listing: "example_fs (fsPath (Uri_file ''/snaps/multi''))
      = Some [''README'', ''db-java'', ''db-cpp'', ''src'']"
    by (simp add: example_fs_def Uri_file_def)
  have matches: "filter (\<lambda>file. startsWith file ''db-'')
      [''README'', ''db-java'', ''db-cpp'', ''src''] = ''db-java'' # [''db-cpp'']"
    by (simp add: startsWith_def)
  have joined: "path_join [''/snaps/multi'', ''db-java''] = ''/snaps/multi/db-java''"
    by (simp add: path_join_def normalize_def normalizeString_def)
  have base: "basename ''/snaps/multi'' = ''multi''"
    by (simp add: basename_def)
  have listing1: "example_fs (fsPath (Uri_file ''/snaps/myproj'')) = Some [''db-cpp'', ''src'']"
    by (simp add: example_fs_def Uri_file_def)
  have matches1: "filter (\<lambda>file. startsWith file ''db-'') [''db-cpp'', ''src''] = ''db-cpp'' # []"
    by (simp add: startsWith_def)
  have joined1: "path_join [''/snaps/myproj'', ''db-cpp''] = ''/snaps/myproj/db-cpp''"
    by (simp add: path_join_def normalize_def normalizeString_def)
  have base1: "basename ''/snaps/myproj'' = ''myproj''"
    by (simp add: basename_def)
  have several: "new_DatabaseItem example_fs (Uri_file ''/snaps/multi'') fresh_session =
       (Inr 0,
        fresh_session
          \<lparr>warningMessages :=
             [''Found multiple database directories in snapshot, using /snaps/multi/db-java''],
           heap :=
             [\<lparr>snapshotUri = Uri_file ''/snaps/multi'',
               dbUri = Uri_file ''/snaps/multi/db-java'',
               srcRoot = None,
               name = ''multi''\<rparr>]\<rparr>)"
    using construct_first_match
            [of example_fs "Uri_file ''/snaps/multi''"
                "[''README'', ''db-java'', ''db-cpp'', ''src'']" "''db-java''" "[''db-cpp'']"
                fresh_session, OF listing matches]
          joined base
    by (simp add: Uri_file_def fresh_session_def)
  have single: "new_DatabaseItem example_fs (Uri_file ''/snaps/myproj'') fresh_session =
       (Inr 0, fresh_session\<lparr>heap := [myproj_item]\<rparr>)"
    using construct_first_match
            [of example_fs "Uri_file ''/snaps/myproj''" "[''db-cpp'', ''src'']" "''db-cpp''" "[]"
                fresh_session, OF listing1 matches1]
          joined1 base1
    by (simp add: Uri_file_def fresh_session_def myproj_item_def)
  from listing matches several listing1 matches1 single show ?thesis
    by (intro conjI)
qed

section \<open>Selecting by URI\<close>

lemma findIndex_Some:
  "findIndex P xs = Some ix \<Longrightarrow> ix < length xs \<and> P (xs ! ix)"
  by (induction xs arbitrary: ix) (auto split: if_splits)

lemma setCurrentUri_cases:
  "(\<exists>m. setCurrentUri fs dir s = (Inr (), s\<lparr>errorMessages := errorMessages s @ [m]\<rparr>)
        \<and> new_DatabaseItem fs dir s = (Inl (NoDatabaseError m), s))
   \<or> (setCurrentUri fs dir s = (Inl FsError, s) \<and> new_DatabaseItem fs dir s = (Inl FsError, s))
   \<or> (\<exists>s1. fst (new_DatabaseItem fs dir s) = Inr (length (heap s))
         \<and> s1 = snd (new_DatabaseItem fs dir s)
         \<and> databases s1 = databases s \<and> current s1 = current s \<and> fired s1 = fired s
         \<and> workspaceState s1 = workspaceState s
         \<and> length (heap s1) = Suc (length (heap s))
         \<and> (setCurrentUri fs dir s =
               (Inr (), setCurrentItem (length (heap s))
                          (s1\<lparr>databases := databases s1 @ [length (heap s)]\<rparr>))
             \<or> (\<exists>item. item \<in> set (databases s)
                   \<and> setCurrentUri fs dir s = (Inr (), setCurrentItem item s1))))"
proof -
  consider
    (nodb) m where "new_DatabaseItem fs dir s = (Inl (NoDatabaseError m), s)"
  | (fserr) "new_DatabaseItem fs dir s = (Inl FsError, s)"
  | (ok) w this where "new_DatabaseItem fs dir s =
         (Inr (length (heap s)), s\<lparr>warningMessages := w, heap := heap s @ [this]\<rparr>)"
    using new_DatabaseItem_cases [of fs dir s] by blast
  then show ?thesis
  proof cases
    case nodb
    then show ?thesis by (simp add: setCurrentUri_def showErrorMessage_def)
  next
    case fserr
    then show ?thesis by (simp add: setCurrentUri_def)
  next
    case ok
    define s1 where "s1 = s\<lparr>warningMessages := w, heap := heap s @ [this]\<rparr>"
    show ?thesis
    proof (cases "findIndex (\<lambda>it. fsPath (dbUri (heap s1 ! it)) = fsPath dir) (databases s1)")
      case None
      with ok show ?thesis by (simp add: setCurrentUri_def s1_def)
    next
      case (Some ix)
      then have "ix < length (databases s)"
        using findIndex_Some [OF Some] by (simp add: s1_def)
      then have "databases s ! ix \<in> set (databases s)" by simp
      with ok Some show ?thesis
        by (auto simp: setCurrentUri_def s1_def)
    qed
  qed
qed

lemma setCurrentUri_no_Error: "setCurrentUri fs dir s \<noteq> (Inl (Error m), s')"
  using setCurrentUri_cases [of fs dir s] by auto

lemma fired_setCurrentItem: "fired (setCurrentItem item s) = fired s + 1"
  by (simp add: setCurrentItem_def)

text \<open>
  C10. A call of \<^verbatim>\<open>setCurrentUri\<close> whose item cannot be built for want of a
  database returns with the event emitter not fired. A call whose item is built
  returns after exactly one more firing, and its final state is the result of
  \<^verbatim>\<open>setCurrentItem\<close> on a state in which the emitter had not fired yet.
\<close>

theorem notification_iff_selected:
  "(fst (new_DatabaseItem fs dir s) = Inl (NoDatabaseError m) \<longrightarrow>
      fst (setCurrentUri fs dir s) = Inr ()
      \<and> fired (snd (setCurrentUri fs dir s)) = fired s)
   \<and> (fst (new_DatabaseItem fs dir s) = Inr new \<longrightarrow>
      fst (setCurrentUri fs dir s) = Inr ()
      \<and> fired (snd (setCurrentUri fs dir s)) = fired s + 1
      \<and> (\<exists>item before. snd (setCurrentUri fs dir s) = setCurrentItem item before
            \<and> fired before = fired s))"
proof (intro conjI impI)
  assume "fst (new_DatabaseItem fs dir s) = Inl (NoDatabaseError m)"
  then have "setCurrentUri fs dir s = (Inr (), s\<lparr>errorMessages := errorMessages s @ [m]\<rparr>)"
    using setCurrentUri_cases [of fs dir s] by auto
  then show "fst (setCurrentUri fs dir s) = Inr ()"
    and "fired (snd (setCurrentUri fs dir s)) = fired s"
    by simp_all
next
  assume "fst (new_DatabaseItem fs dir s) = Inr new"
  then obtain item before where
    sel: "setCurrentUri fs dir s = (Inr (), setCurrentItem item before)"
    and before: "fired before = fired s"
    using setCurrentUri_cases [of fs dir s] by auto
  from sel show "fst (setCurrentUri fs dir s) = Inr ()"
    by simp
  from sel before show "fired (snd (setCurrentUri fs dir s)) = fired s + 1"
    by (simp add: fired_setCurrentItem)
  from sel before
  show "\<exists>item before. snd (setCurrentUri fs dir s) = setCurrentItem item before
          \<and> fired before = fired s"
    by auto
qed

theorem notification_iff_selected_witness:
  "fst (new_DatabaseItem example_fs (Uri_file ''/snaps/empty'') restored_session)
     = Inl (NoDatabaseError ''/snaps/empty doesn't appear to be a valid snapshot directory.'')
   \<and> fired (snd (setCurrentUri example_fs (Uri_file ''/snaps/empty'') restored_session)) = 0
   \<and> fst (new_DatabaseItem example_fs (Uri_file ''/snaps/multi'') restored_session) = Inr 1
   \<and> fired (snd (setCurrentUri example_fs (Uri_file ''/snaps/multi'') restored_session)) = 1"
proof -
  have fails: "fst (new_DatabaseItem example_fs (Uri_file ''/snaps/empty'') restored_session)
     = Inl (NoDatabaseError ''/snaps/empty doesn't appear to be a valid snapshot directory.'')"
    by (simp add: model_defs path_defs example_fs_def)
  have succeeds:
    "fst (new_DatabaseItem example_fs (Uri_file ''/snaps/multi'') restored_session) = Inr 1"
    by (simp add: model_defs path_defs example_fs_def restored_session_def)
  have zero: "fired restored_session = 0"
    by (simp add: restored_session_def)
  show ?thesis
    using notification_iff_selected
            [of example_fs "Uri_file ''/snaps/empty''" restored_session
                "''/snaps/empty doesn't appear to be a valid snapshot directory.''" 1]
          notification_iff_selected
            [of example_fs "Uri_file ''/snaps/multi''" restored_session "[]" 1]
          fails succeeds zero
    by simp
qed

text \<open>
  C2. Selecting the same valid snapshot root twice, in a manager started with nothing
  persisted: the code compares the \<^verbatim>\<open>dbUri.fsPath\<close> of the known item with the
  \<^verbatim>\<open>fsPath\<close> of the root, which differ, so the second call adds a second item for the
  same database path and makes it current.
\<close>

theorem select_twice_adds_twice:
  "(let D = Uri_file ''/snaps/myproj'';
        s1 = snd (setCurrentUri example_fs D fresh_session);
        s2 = snd (setCurrentUri example_fs D s1)
    in new_DatabaseManager example_fs Map.empty = Inr fresh_session
       \<and> databases s1 = [0] \<and> current s1 = Some 0
       \<and> databases s2 = [0, 1] \<and> current s2 = Some 1
       \<and> map (\<lambda>item. fsPath (dbUri (heap s2 ! item))) (databases s2)
           = [''/snaps/myproj/db-cpp'', ''/snaps/myproj/db-cpp''])"
  by (simp add: model_defs path_defs example_fs_def fresh_session_def)

text \<open>
  C1. Selecting two different snapshot roots with the same database path, one after
  the other: the search compares the known item's \<^verbatim>\<open>dbUri.fsPath\<close> with the
  \<^verbatim>\<open>fsPath\<close> of the second root, not with the database path of the new item, so both
  items are in the list and the second one is current.
\<close>

theorem same_database_path_adds_twice:
  "(let D1 = Uri_file ''/snaps/myproj'';
        D2 = Uri_file ''/snaps/myproj/'';
        s1 = snd (setCurrentUri example_fs D1 fresh_session);
        s2 = snd (setCurrentUri example_fs D2 s1)
    in D1 \<noteq> D2
       \<and> dbUri (heap s2 ! 0) = Uri_file ''/snaps/myproj/db-cpp''
       \<and> dbUri (heap s2 ! 1) = Uri_file ''/snaps/myproj/db-cpp''
       \<and> databases s1 = [0] \<and> current s1 = Some 0
       \<and> databases s2 = [0, 1] \<and> current s2 = Some 1)"
  by code_simp

section \<open>The invariant of the current item\<close>

lemma current_in_items_setCurrentUri:
  assumes "current_in_items s"
  shows "current_in_items (snd (setCurrentUri fs dir s))"
  using setCurrentUri_cases [of fs dir s] assms
  by (auto simp: current_in_items_def setCurrentItem_def list_all_iff less_Suc_eq
           split: option.splits)

lemma current_in_items_workspaceState_update:
  "current_in_items (workspaceState_update key v s) = current_in_items s"
  by (simp add: current_in_items_def workspaceState_update_def split: option.splits)

lemma current_in_items_setCurrentDatabase:
  assumes "current_in_items s"
  shows "current_in_items (snd (setCurrentDatabase fs db s))"
  using current_in_items_setCurrentUri [OF assms, of fs db] assms
  by (auto simp: setCurrentDatabase_def current_in_items_workspaceState_update
           split: prod.splits sum.splits)

lemma current_in_items_chooseAndSetDatabase:
  assumes "current_in_items s"
  shows "current_in_items (snd (chooseAndSetDatabase fs chosen s))"
  using current_in_items_setCurrentDatabase [OF assms] assms
  by (auto simp: chooseAndSetDatabase_def split: option.splits prod.splits sum.splits)
    (metis snd_conv)+

lemma current_in_items_getDatabaseDir:
  assumes "current_in_items s"
  shows "current_in_items (snd (getDatabaseDir fs chosen s))"
  using current_in_items_chooseAndSetDatabase [OF assms] assms
  by (simp add: getDatabaseDir_def split: option.splits)

lemma current_in_items_perform:
  "current_in_items s \<Longrightarrow> admissible c s \<Longrightarrow> current_in_items (perform c s)"
proof (cases c)
  case (SetCurrentItem item)
  assume "current_in_items s" "admissible c s"
  with SetCurrentItem show ?thesis
    by (simp add: current_in_items_def setCurrentItem_def)
qed (simp_all add: current_in_items_setCurrentUri current_in_items_setCurrentDatabase
       current_in_items_chooseAndSetDatabase current_in_items_getDatabaseDir)

lemma current_in_items_run:
  "current_in_items s \<Longrightarrow> admissible_all calls s \<Longrightarrow> current_in_items (run calls s)"
  by (induction calls arbitrary: s) (simp_all add: current_in_items_perform)

lemma current_in_items_new_DatabaseManager:
  assumes "new_DatabaseManager fs ws = Inr s0"
  shows "current_in_items s0"
proof (cases "ws CURRENT_DB")
  case None
  with assms show ?thesis
    by (auto simp: new_DatabaseManager_def current_in_items_def)
next
  case (Some db)
  let ?s = "\<lparr>heap = [], databases = [], current = None, fired = 0,
             warningMessages = [], errorMessages = [], workspaceState = ws\<rparr>"
  from new_DatabaseItem_cases [of fs "Uri_file db" ?s] assms Some show ?thesis
    by (auto simp: new_DatabaseManager_def current_in_items_def
          workspaceState_update_def showErrorMessage_def split: option.splits)
qed

text \<open>
  C7. In every state reached from the constructor of \<^verbatim>\<open>DatabaseManager\<close> by calls
  of its methods and of \<^verbatim>\<open>setCurrentUri\<close>, where each \<^verbatim>\<open>setCurrentItem\<close> is given
  a member of the list: if \<open>current\<close> is set, it is one of the references in
  \<open>databases\<close>, and that reference is an object of the store.
\<close>

theorem current_refers_to_item:
  assumes "new_DatabaseManager fs ws = Inr s0"
    and "admissible_all calls s0"
    and "current (run calls s0) = Some item"
  shows "item \<in> set (databases (run calls s0)) \<and> item < length (heap (run calls s0))"
proof -
  have "current_in_items (run calls s0)"
    using assms(1,2) by (simp add: current_in_items_new_DatabaseManager current_in_items_run)
  with assms(3) show ?thesis
    by (auto simp: current_in_items_def list_all_iff split: option.splits)
qed

theorem current_refers_to_item_witness:
  "new_DatabaseManager example_fs example_ws = Inr restored_session
   \<and> admissible_all example_calls restored_session
   \<and> current (run example_calls restored_session) = Some 0
   \<and> databases (run example_calls restored_session) = [0, 1]
   \<and> 0 \<in> set (databases (run example_calls restored_session))
   \<and> 0 < length (heap (run example_calls restored_session))"
proof -
  have init: "new_DatabaseManager example_fs example_ws = Inr restored_session"
    by (rule restored)
  have adm: "admissible_all example_calls restored_session"
    by (simp add: model_defs path_defs example_fs_def example_calls_def restored_session_def
        myproj_item_def)
  have cur: "current (run example_calls restored_session) = Some 0"
    by (simp add: model_defs path_defs example_fs_def example_calls_def restored_session_def
        myproj_item_def)
  have dbs: "databases (run example_calls restored_session) = [0, 1]"
    by (simp add: model_defs path_defs example_fs_def example_calls_def restored_session_def
        myproj_item_def)
  show ?thesis
    using current_refers_to_item [OF init adm cur] init adm cur dbs by simp
qed

section \<open>The manager and the persisted selection\<close>

text \<open>
  C9. \<^verbatim>\<open>setCurrentDatabase\<close> throws its \<^verbatim>\<open>Error\<close> exactly when the scheme of the URI
  is not \<^verbatim>\<open>file\<close>; it is thrown to the caller, with the message naming the scheme,
  and the state (items, current item, persisted value) is as before the call.
\<close>

theorem unsupported_scheme:
  "((\<exists>m. fst (setCurrentDatabase fs db s) = Inl (Error m)) \<longleftrightarrow> scheme db \<noteq> ''file'')
   \<and> (scheme db \<noteq> ''file'' \<longrightarrow>
        setCurrentDatabase fs db s =
          (Inl (Error (''Database uri scheme '' @ scheme db
                         @ '' not supported, only file uris are supported.'')), s))"
proof -
  have "fst (setCurrentDatabase fs db s) \<noteq> Inl (Error m)" if "scheme db = ''file''" for m
    using that setCurrentUri_no_Error [of fs db s m]
    by (auto simp: setCurrentDatabase_def split: prod.splits sum.splits)
  then show ?thesis
    by (auto simp: setCurrentDatabase_def)
qed

theorem unsupported_scheme_witness:
  "scheme remote_uri \<noteq> ''file''
   \<and> setCurrentDatabase example_fs remote_uri restored_session =
       (Inl (Error ''Database uri scheme vscode-remote not supported, only file uris are supported.''),
        restored_session)
   \<and> scheme (Uri_file ''/snaps/multi'') = ''file''
   \<and> fst (setCurrentDatabase example_fs (Uri_file ''/snaps/multi'') restored_session) = Inr ()"
proof -
  have remote: "scheme remote_uri \<noteq> ''file''"
    by (simp add: remote_uri_def)
  have local: "fst (setCurrentDatabase example_fs (Uri_file ''/snaps/multi'') restored_session)
      = Inr ()"
    by (simp add: model_defs path_defs example_fs_def restored_session_def myproj_item_def)
  show ?thesis
    using unsupported_scheme [of example_fs remote_uri restored_session] remote local
    by (simp add: remote_uri_def Uri_file_def)
qed

text \<open>
  C8. \<^verbatim>\<open>chooseAndSetDatabase\<close> with a file URI \<open>D\<close> that validates returns, and a
  new \<^verbatim>\<open>DatabaseManager\<close> built afterwards from the persisted state, on a file
  system where \<open>D\<close> still validates, has one item, which is current and whose
  \<open>snapshotUri\<close> is \<open>D\<close>.
\<close>

theorem persistence_round_trip:
  assumes "scheme D = ''file''"
    and "validates fs D"
    and "validates fs' D"
  shows "(\<exists>r. fst (chooseAndSetDatabase fs (Some D) s) = Inr r)
         \<and> (\<exists>t. new_DatabaseManager fs'
                    (workspaceState (snd (chooseAndSetDatabase fs (Some D) s))) = Inr t
                \<and> current t = Some 0
                \<and> databases t = [0]
                \<and> snapshotUri (heap t ! 0) = D)"
proof -
  have D: "Uri_file (fsPath D) = D"
    using assms(1) by (cases D) (simp add: Uri_file_def)
  obtain new where "fst (new_DatabaseItem fs D s) = Inr new"
    using assms(2) validates_iff [of fs D s] by blast
  then obtain s1 where sel: "setCurrentUri fs D s = (Inr (), s1)"
    using setCurrentUri_cases [of fs D s] by auto
  then have ws: "workspaceState (snd (chooseAndSetDatabase fs (Some D) s)) CURRENT_DB
      = Some (fsPath D)"
    using assms(1)
    by (simp add: chooseAndSetDatabase_def setCurrentDatabase_def workspaceState_update_def)
  have returns: "\<exists>r. fst (chooseAndSetDatabase fs (Some D) s) = Inr r"
    using sel assms(1) by (simp add: chooseAndSetDatabase_def setCurrentDatabase_def)
  let ?ws = "workspaceState (snd (chooseAndSetDatabase fs (Some D) s))"
  let ?s0 = "\<lparr>heap = [], databases = [], current = None, fired = 0,
              warningMessages = [], errorMessages = [], workspaceState = ?ws\<rparr>"
  obtain files m ms where listing: "fs' (fsPath D) = Some files"
    and matches: "filter (\<lambda>file. startsWith file ''db-'') files = m # ms"
    using assms(3)
    by (auto simp: validates_def findDb_filter split: option.splits list.splits)
  have "fs' (fsPath (Uri_file (fsPath D))) = Some files"
    using listing by (simp add: Uri_file_def)
  from new_DatabaseItem_match [of fs' "Uri_file (fsPath D)" files m ms ?s0, OF this matches] ws D
  have "\<exists>t. new_DatabaseManager fs' ?ws = Inr t
          \<and> current t = Some 0 \<and> databases t = [0] \<and> snapshotUri (heap t ! 0) = D"
    by (simp add: new_DatabaseManager_def)
  with returns show ?thesis
    by (rule conjI)
qed

theorem persistence_round_trip_witness:
  "scheme (Uri_file ''/snaps/myproj'') = ''file''
   \<and> validates example_fs (Uri_file ''/snaps/myproj'')
   \<and> workspaceState
        (snd (chooseAndSetDatabase example_fs (Some (Uri_file ''/snaps/myproj'')) fresh_session))
       = example_ws
   \<and> new_DatabaseManager example_fs example_ws = Inr restored_session
   \<and> current restored_session = Some 0
   \<and> snapshotUri (heap restored_session ! 0) = Uri_file ''/snaps/myproj''"
proof -
  have isfile: "scheme (Uri_file ''/snaps/myproj'') = ''file''"
    by (simp add: Uri_file_def)
  have valid: "validates example_fs (Uri_file ''/snaps/myproj'')"
    by (simp add: validates_def findDb_def example_fs_def Uri_file_def startsWith_def)
  have persisted: "workspaceState
      (snd (chooseAndSetDatabase example_fs (Some (Uri_file ''/snaps/myproj'')) fresh_session))
      = example_ws"
    by (simp add: model_defs path_defs example_fs_def fresh_session_def example_ws_def)
  have init: "new_DatabaseManager example_fs example_ws = Inr restored_session"
    by (rule restored)
  have cur: "current restored_session = Some 0"
    by (simp add: restored_session_def)
  show ?thesis
    using persistence_round_trip [OF isfile valid valid, of fresh_session]
          isfile valid persisted init cur
    by auto
qed

text \<open>
  C3. \<^verbatim>\<open>chooseAndSetDatabase\<close> returns the URI the user chose, the snapshot root,
  while the item it made current has the database directory below it as \<open>dbUri\<close>.
  \<^verbatim>\<open>getDatabaseDir\<close> returns the same snapshot root when it has to ask, and the
  \<open>dbUri\<close> of the current item on the next call.
\<close>

theorem chooseAndSetDatabase_returns_chosen:
  "(let D = Uri_file ''/snaps/myproj'';
        (r, s1) = chooseAndSetDatabase example_fs (Some D) fresh_session
    in r = Inr (Some D)
       \<and> current s1 = Some 0
       \<and> dbUri (heap s1 ! 0) = Uri_file ''/snaps/myproj/db-cpp''
       \<and> fst (getDatabaseDir example_fs (Some D) fresh_session) = Inr (Some D)
       \<and> fst (getDatabaseDir example_fs None s1) = Inr (Some (Uri_file ''/snaps/myproj/db-cpp'')))"
  by (simp add: model_defs path_defs example_fs_def fresh_session_def)

text \<open>
  C4. \<^verbatim>\<open>setCurrentDatabase\<close> with a directory without a database, in a session
  whose persisted selection is valid: \<^verbatim>\<open>setCurrentUri\<close> shows the error and returns,
  the list and the current item stay as they were, and the path of the rejected
  directory is written over the persisted selection.
  \<^verbatim>\<open>chooseAndSetDatabase\<close> ends in the same state.
\<close>

theorem failed_selection_is_persisted:
  "(let D = Uri_file ''/snaps/empty'';
        (r, s1) = setCurrentDatabase example_fs D restored_session
    in fst (new_DatabaseItem example_fs D restored_session)
         = Inl (NoDatabaseError ''/snaps/empty doesn't appear to be a valid snapshot directory.'')
       \<and> r = Inr ()
       \<and> databases s1 = databases restored_session
       \<and> current s1 = current restored_session
       \<and> workspaceState restored_session CURRENT_DB = Some ''/snaps/myproj''
       \<and> workspaceState s1 CURRENT_DB = Some ''/snaps/empty''
       \<and> snd (chooseAndSetDatabase example_fs (Some D) restored_session) = s1)"
  by (simp add: model_defs path_defs example_fs_def restored_session_def example_ws_def)

end
